theory Spec2Isabelle
  imports Complex_Main
begin

section \<open>Python values that cross the service boundary\<close>

text \<open>
  The dictionaries built by \<open>Event.to_dict\<close> hold strings, \<open>None\<close>, lists and nested
  dictionaries. A dictionary literal keeps its keys in the order they are written, so it
  is an association list.
\<close>

datatype pyval =
    PNone
  | PStr string
  | PList "pyval list"
  | PDict "(string \<times> pyval) list"

definition dict_get :: "pyval \<Rightarrow> string \<Rightarrow> pyval option" where
  "dict_get d k = (case d of PDict kvs \<Rightarrow> map_of kvs k | _ \<Rightarrow> None)"

definition opt_str :: "string option \<Rightarrow> pyval" where
  "opt_str s = (case s of None \<Rightarrow> PNone | Some t \<Rightarrow> PStr t)"

section \<open>class Event\<close>

record Event =
  summary :: string
  location :: string
  description :: string
  start :: string
  end' :: string
  attendees :: "string list"
  timeZone :: "string option"

text \<open>\<open>Event.__init__\<close>: \<open>attendees\<close> and \<open>timeZone\<close> default to \<open>None\<close>; a missing
  attendee list becomes the empty list.\<close>

definition Event_init ::
  "string \<Rightarrow> string \<Rightarrow> string \<Rightarrow> string \<Rightarrow> string \<Rightarrow> string list option \<Rightarrow> string option \<Rightarrow> Event"
where
  "Event_init s l d st en att tz =
     \<lparr>summary = s, location = l, description = d, start = st, end' = en,
      attendees = (case att of Some a \<Rightarrow> a | None \<Rightarrow> []), timeZone = tz\<rparr>"

definition to_dict :: "Event \<Rightarrow> pyval" where
  "to_dict self = PDict
     [(''summary'', PStr (summary self)),
      (''location'', PStr (location self)),
      (''description'', PStr (description self)),
      (''start'', PDict [(''dateTime'', PStr (start self)), (''timeZone'', opt_str (timeZone self))]),
      (''end'', PDict [(''dateTime'', PStr (end' self)), (''timeZone'', opt_str (timeZone self))]),
      (''attendees'', PList (map (\<lambda>attendee. PDict [(''email'', PStr attendee)]) (attendees self)))]"

section \<open>Exceptions\<close>

text \<open>
  The exceptions that can leave the functions of the module. \<open>HttpError\<close> is the client
  library's error for a failed request to the calendar service and carries its printed form
  (\<open>'%s' % error\<close>); \<open>KeyError\<close> carries the missing key. \<open>OtherError\<close> stands for every
  other exception a collaborator raises (transport failures, a failed token refresh, a
  missing secrets file), tagged with its name.
\<close>

datatype exn =
    HttpError string
  | KeyError string
  | ValueError
  | TypeError
  | OverflowError
  | OtherError string

section \<open>The \<open>datetime\<close> library\<close>

subsection \<open>Proleptic Gregorian ordinals\<close>

text \<open>Day 1 is 0001-01-01, as in \<open>date.toordinal\<close>; 9999-12-31 is day 3652059.\<close>

definition is_leap :: "int \<Rightarrow> bool" where
  "is_leap y = (y mod 4 = 0 \<and> (y mod 100 \<noteq> 0 \<or> y mod 400 = 0))"

definition days_in_month :: "int \<Rightarrow> int \<Rightarrow> int" where
  "days_in_month y m =
     (if m = 2 then (if is_leap y then 29 else 28)
      else if m = 4 \<or> m = 6 \<or> m = 9 \<or> m = 11 then 30 else 31)"

definition days_before_year :: "int \<Rightarrow> int" where
  "days_before_year y = (y - 1) * 365 + (y - 1) div 4 - (y - 1) div 100 + (y - 1) div 400"

definition DAYS_BEFORE_MONTH :: "int \<Rightarrow> int" where
  "DAYS_BEFORE_MONTH m =
     (if m = 1 then 0 else if m = 2 then 31 else if m = 3 then 59 else if m = 4 then 90
      else if m = 5 then 120 else if m = 6 then 151 else if m = 7 then 181
      else if m = 8 then 212 else if m = 9 then 243 else if m = 10 then 273
      else if m = 11 then 304 else 334)"

definition days_before_month :: "int \<Rightarrow> int \<Rightarrow> int" where
  "days_before_month y m = DAYS_BEFORE_MONTH m + (if m > 2 \<and> is_leap y then 1 else 0)"

definition ymd2ord :: "int \<Rightarrow> int \<Rightarrow> int \<Rightarrow> int" where
  "ymd2ord y m d = days_before_year y + days_before_month y m + d"

definition MAXORDINAL :: int where
  "MAXORDINAL = 3652059"

text \<open>The inverse, by the library's own division into 400-, 100-, 4- and 1-year cycles:
  \<open>n\<close> ends as the day of the year, counted from 0, and the month is estimated as
  \<open>(n + 50) >> 5\<close> and lowered by one if that was too far.\<close>

definition doy2md :: "bool \<Rightarrow> int \<Rightarrow> int \<times> int" where
  "doy2md leapyear n =
     (let month = (n + 50) div 32;
          preceding = DAYS_BEFORE_MONTH month + (if month > 2 \<and> leapyear then 1 else 0)
      in if preceding > n
         then
           let month' = month - 1;
               preceding' = preceding
                 - ((if month' = 2 then 28
                     else if month' = 4 \<or> month' = 6 \<or> month' = 9 \<or> month' = 11 then 30
                     else 31)
                    + (if month' = 2 \<and> leapyear then 1 else 0))
           in (month', n - preceding' + 1)
         else (month, n - preceding + 1))"

definition ord2ymd :: "int \<Rightarrow> int \<times> int \<times> int" where
  "ord2ymd n0 =
     (let n = n0 - 1;
          n400 = n div 146097; n = n mod 146097;
          n100 = n div 36524; n = n mod 36524;
          n4 = n div 1461; n = n mod 1461;
          n1 = n div 365; n = n mod 365;
          y = n400 * 400 + 1 + n100 * 100 + n4 * 4 + n1
      in if n1 = 4 \<or> n100 = 4 then (y - 1, 12, 31)
         else
           let leapyear = (n1 = 3 \<and> (n4 \<noteq> 24 \<or> n100 = 3))
           in (case doy2md leapyear n of (month, day) \<Rightarrow> (y, month, day)))"

subsection \<open>Aware datetimes with a fixed offset\<close>

text \<open>
  Every \<open>datetime\<close> the module handles is aware and carries a fixed-offset \<open>timezone\<close>;
  \<open>dt_utcoffset\<close> is that offset in microseconds east of UTC.
\<close>

record datetime =
  dt_year :: int
  dt_month :: int
  dt_day :: int
  dt_hour :: int
  dt_minute :: int
  dt_second :: int
  dt_microsecond :: int
  dt_utcoffset :: int

definition US_PER_SECOND :: int where
  "US_PER_SECOND = 1000000"

definition US_PER_DAY :: int where
  "US_PER_DAY = 86400000000"

text \<open>Wall-clock microseconds since the (fictitious) midnight of ordinal 0.\<close>

definition wall_us :: "datetime \<Rightarrow> int" where
  "wall_us d =
     ((ymd2ord (dt_year d) (dt_month d) (dt_day d) * 86400
        + dt_hour d * 3600 + dt_minute d * 60 + dt_second d) * US_PER_SECOND)
     + dt_microsecond d"

definition of_wall_us :: "int \<Rightarrow> int \<Rightarrow> datetime" where
  "of_wall_us n off =
     (let (y, m, d) = ord2ymd (n div US_PER_DAY);
          r = n mod US_PER_DAY;
          s = r div US_PER_SECOND
      in \<lparr>dt_year = y, dt_month = m, dt_day = d,
          dt_hour = s div 3600, dt_minute = (s mod 3600) div 60, dt_second = s mod 60,
          dt_microsecond = r mod US_PER_SECOND, dt_utcoffset = off\<rparr>)"

text \<open>\<open>datetime + timedelta\<close> (the delta in microseconds): the wall clock moves, the
  \<open>tzinfo\<close> stays; a result outside 0001-01-01 .. 9999-12-31 raises \<open>OverflowError\<close>.\<close>

definition dt_add :: "datetime \<Rightarrow> int \<Rightarrow> exn + datetime" where
  "dt_add d delta =
     (let n = wall_us d + delta
      in if n div US_PER_DAY < 1 \<or> n div US_PER_DAY > MAXORDINAL then Inl OverflowError
         else Inr (of_wall_us n (dt_utcoffset d)))"

text \<open>The instant of an aware datetime, in microseconds since 1970-01-01T00:00:00Z
  (ordinal 719163).\<close>

definition EPOCH_US :: int where
  "EPOCH_US = 719163 * 86400000000"

definition posix_us :: "datetime \<Rightarrow> int" where
  "posix_us d = wall_us d - dt_utcoffset d - EPOCH_US"

subsection \<open>Formatting\<close>

definition digit_char :: "int \<Rightarrow> char" where
  "digit_char n = ''0123456789'' ! nat (n mod 10)"

definition pad2 :: "int \<Rightarrow> string" where
  "pad2 n = [digit_char (n div 10), digit_char n]"

definition pad4 :: "int \<Rightarrow> string" where
  "pad4 n = pad2 (n div 100) @ pad2 (n mod 100)"

definition pad6 :: "int \<Rightarrow> string" where
  "pad6 n = pad2 (n div 10000) @ pad4 (n mod 10000)"

text \<open>\<open>strftime('%I:%M %p')\<close> in the C locale: the hour on a 12-hour clock, the minute, and
  \<open>AM\<close> or \<open>PM\<close>.\<close>

definition strftime_I_M_p :: "datetime \<Rightarrow> string" where
  "strftime_I_M_p d =
     pad2 (if dt_hour d mod 12 = 0 then 12 else dt_hour d mod 12) @ '':''
       @ pad2 (dt_minute d) @ '' '' @ (if dt_hour d < 12 then ''AM'' else ''PM'')"

definition format_offset :: "int \<Rightarrow> string" where
  "format_offset off =
     (let a = \<bar>off\<bar>;
          hh = a div (3600 * US_PER_SECOND);
          r = a mod (3600 * US_PER_SECOND);
          mm = r div (60 * US_PER_SECOND);
          ss = (r mod (60 * US_PER_SECOND)) div US_PER_SECOND;
          us = r mod US_PER_SECOND
      in (if off < 0 then ''-'' else ''+'') @ pad2 hh @ '':'' @ pad2 mm
         @ (if ss \<noteq> 0 \<or> us \<noteq> 0
            then '':'' @ pad2 ss @ (if us \<noteq> 0 then ''.'' @ pad6 us else [])
            else []))"

definition isoformat :: "datetime \<Rightarrow> string" where
  "isoformat d =
     pad4 (dt_year d) @ ''-'' @ pad2 (dt_month d) @ ''-'' @ pad2 (dt_day d) @ ''T''
       @ pad2 (dt_hour d) @ '':'' @ pad2 (dt_minute d) @ '':'' @ pad2 (dt_second d)
       @ (if dt_microsecond d \<noteq> 0 then ''.'' @ pad6 (dt_microsecond d) else [])
       @ format_offset (dt_utcoffset d)"

subsection \<open>Parsing with the format \<open>%Y-%m-%dT%H:%M:%S%z\<close>\<close>

text \<open>
  \<open>strptime\<close> turns the format into a regular expression, takes the first match at the
  start of the string in the matcher's priority order (earlier alternative first, optional
  parts taken greedily) and raises \<open>ValueError\<close> when there is none or when text remains
  after it. A matcher below returns every way to match a prefix, in that order, each with
  the matched text and the rest.
\<close>

type_synonym rx = "string \<Rightarrow> (string \<times> string) list"

definition rx_char :: "(char \<Rightarrow> bool) \<Rightarrow> rx" where
  "rx_char P s = (case s of [] \<Rightarrow> [] | c # r \<Rightarrow> if P c then [([c], r)] else [])"

definition rx_seq :: "rx \<Rightarrow> rx \<Rightarrow> rx" where
  "rx_seq p q s = List.bind (p s) (\<lambda>(a, r). map (\<lambda>(b, r'). (a @ b, r')) (q r))"

definition rx_alt :: "rx \<Rightarrow> rx \<Rightarrow> rx" where
  "rx_alt p q s = p s @ q s"

definition rx_opt :: "rx \<Rightarrow> rx" where
  "rx_opt p s = p s @ [([], s)]"

definition between :: "char \<Rightarrow> char \<Rightarrow> char \<Rightarrow> bool" where
  "between lo hi c = ((of_char lo :: nat) \<le> of_char c \<and> (of_char c :: nat) \<le> of_char hi)"

definition rx_digit :: rx where
  "rx_digit = rx_char (between CHR ''0'' CHR ''9'')"

definition rx_range :: "char \<Rightarrow> char \<Rightarrow> rx" where
  "rx_range lo hi = rx_char (between lo hi)"

definition rx_lit :: "char \<Rightarrow> rx" where
  "rx_lit c = rx_char (\<lambda>x. x = c)"

definition rx_Y :: rx where
  "rx_Y = rx_seq rx_digit (rx_seq rx_digit (rx_seq rx_digit rx_digit))"

definition rx_m :: rx where
  "rx_m = rx_alt (rx_seq (rx_lit CHR ''1'') (rx_range CHR ''0'' CHR ''2''))
         (rx_alt (rx_seq (rx_lit CHR ''0'') (rx_range CHR ''1'' CHR ''9''))
                 (rx_range CHR ''1'' CHR ''9''))"

definition rx_d :: rx where
  "rx_d = rx_alt (rx_seq (rx_lit CHR ''3'') (rx_range CHR ''0'' CHR ''1''))
         (rx_alt (rx_seq (rx_range CHR ''1'' CHR ''2'') rx_digit)
         (rx_alt (rx_seq (rx_lit CHR ''0'') (rx_range CHR ''1'' CHR ''9''))
         (rx_alt (rx_range CHR ''1'' CHR ''9'')
                 (rx_seq (rx_lit CHR '' '') (rx_range CHR ''1'' CHR ''9'')))))"

definition rx_H :: rx where
  "rx_H = rx_alt (rx_seq (rx_lit CHR ''2'') (rx_range CHR ''0'' CHR ''3''))
         (rx_alt (rx_seq (rx_range CHR ''0'' CHR ''1'') rx_digit) rx_digit)"

definition rx_M :: rx where
  "rx_M = rx_alt (rx_seq (rx_range CHR ''0'' CHR ''5'') rx_digit) rx_digit"

definition rx_S :: rx where
  "rx_S = rx_alt (rx_seq (rx_lit CHR ''6'') (rx_range CHR ''0'' CHR ''1''))
         (rx_alt (rx_seq (rx_range CHR ''0'' CHR ''5'') rx_digit) rx_digit)"

text \<open>\<open>\d{1,6}\<close>, longest first.\<close>

definition rx_digits_1_6 :: rx where
  "rx_digits_1_6 =
     rx_seq rx_digit (rx_opt (rx_seq rx_digit (rx_opt (rx_seq rx_digit (rx_opt
       (rx_seq rx_digit (rx_opt (rx_seq rx_digit (rx_opt rx_digit)))))))))"

text \<open>\<open>[+-]\d\d:?[0-5]\d(:?[0-5]\d(\.\d{1,6})?)?|Z\<close>\<close>

definition rx_z :: rx where
  "rx_z = rx_alt
     (rx_seq (rx_char (\<lambda>c. c = CHR ''+'' \<or> c = CHR ''-''))
       (rx_seq rx_digit (rx_seq rx_digit (rx_seq (rx_opt (rx_lit CHR '':''))
         (rx_seq (rx_range CHR ''0'' CHR ''5'') (rx_seq rx_digit
           (rx_opt (rx_seq (rx_opt (rx_lit CHR '':''))
              (rx_seq (rx_range CHR ''0'' CHR ''5'') (rx_seq rx_digit
                (rx_opt (rx_seq (rx_lit CHR ''.'') rx_digits_1_6))))))))))))
     (rx_lit CHR ''Z'')"

text \<open>The whole format; the literal \<open>T\<close> matches either case, since the expression is
  compiled case-insensitively.\<close>

definition strptime_groups ::
  "string \<Rightarrow> ((string \<times> string \<times> string \<times> string \<times> string \<times> string \<times> string) \<times> string) list"
where
  "strptime_groups s0 =
     List.bind (rx_Y s0) (\<lambda>(Y, s1).
     List.bind (rx_lit CHR ''-'' s1) (\<lambda>(_, s2).
     List.bind (rx_m s2) (\<lambda>(m, s3).
     List.bind (rx_lit CHR ''-'' s3) (\<lambda>(_, s4).
     List.bind (rx_d s4) (\<lambda>(d, s5).
     List.bind (rx_char (\<lambda>c. c = CHR ''T'' \<or> c = CHR ''t'') s5) (\<lambda>(_, s6).
     List.bind (rx_H s6) (\<lambda>(H, s7).
     List.bind (rx_lit CHR '':'' s7) (\<lambda>(_, s8).
     List.bind (rx_M s8) (\<lambda>(M, s9).
     List.bind (rx_lit CHR '':'' s9) (\<lambda>(_, s10).
     List.bind (rx_S s10) (\<lambda>(S, s11).
     List.bind (rx_z s11) (\<lambda>(z, s12).
       [((Y, m, d, H, M, S, z), s12)]))))))))))))"

text \<open>\<open>int(s)\<close> on the texts the groups can hold: decimal digits, possibly after a blank;
  anything else raises \<open>ValueError\<close> (\<open>None\<close> here).\<close>

fun digits_val :: "int \<Rightarrow> string \<Rightarrow> int option" where
  "digits_val acc [] = Some acc"
| "digits_val acc (c # cs) =
     (if between CHR ''0'' CHR ''9'' c
      then digits_val (acc * 10 + (int (of_char c) - 48)) cs else None)"

definition py_int :: "string \<Rightarrow> int option" where
  "py_int s = (let t = dropWhile (\<lambda>c. c = CHR '' '') s in if t = [] then None else digits_val 0 t)"

text \<open>The offset of a \<open>%z\<close> match in microseconds, by the library's slicing of the matched
  text: a colon after the hours is dropped, and then one before the seconds must be there
  too.\<close>

definition z_offset :: "string \<Rightarrow> int option" where
  "z_offset z0 =
     (if z0 = ''Z'' then Some 0
      else
        let colon = (take 1 (drop 3 z0) = '':'');
            z1 = (if colon then take 3 z0 @ drop 4 z0 else z0)
        in if colon \<and> length z1 > 5 \<and> take 1 (drop 5 z1) \<noteq> '':'' then None
           else
             let z = (if colon \<and> length z1 > 5 then take 5 z1 @ drop 6 z1 else z1);
                 rem = drop 8 z
             in case (py_int (take 2 (drop 1 z)), py_int (take 2 (drop 3 z)),
                      (if take 2 (drop 5 z) = [] then Some 0 else py_int (take 2 (drop 5 z))),
                      py_int (rem @ replicate (6 - length rem) CHR ''0'')) of
                  (Some hours, Some minutes, Some seconds, Some fraction) \<Rightarrow>
                    let gmtoff = hours * 3600 + minutes * 60 + seconds
                    in Some ((if take 1 z = ''-'' then - 1 else 1)
                               * (gmtoff * US_PER_SECOND + fraction))
                | _ \<Rightarrow> None)"

text \<open>\<open>datetime.strptime(s, '%Y-%m-%dT%H:%M:%S%z')\<close>. The argument is what
  \<open>.get('dateTime', .get('date'))\<close> found, so it may be \<open>None\<close>, which is a \<open>TypeError\<close>.
  Every other failure (no match, text left over, a day the month does not have, year 0, a
  second of 60 or 61, an offset of 24 hours or more) is a \<open>ValueError\<close>.\<close>

definition strptime :: "string option \<Rightarrow> exn + datetime" where
  "strptime data_string =
     (case data_string of
        None \<Rightarrow> Inl TypeError
      | Some s \<Rightarrow>
         (case strptime_groups s of
            [] \<Rightarrow> Inl ValueError
          | ((Y, m, d, H, M, S, z), rest) # _ \<Rightarrow>
              if rest \<noteq> [] then Inl ValueError
              else
                (case (py_int Y, py_int m, py_int d, py_int H, py_int M, py_int S, z_offset z) of
                   (Some year, Some month, Some day, Some hour, Some minute, Some second, Some off) \<Rightarrow>
                     if 1 \<le> year \<and> year \<le> 9999 \<and> 1 \<le> month \<and> month \<le> 12
                        \<and> 1 \<le> day \<and> day \<le> days_in_month year month
                        \<and> hour \<le> 23 \<and> minute \<le> 59 \<and> second \<le> 59
                        \<and> \<bar>off\<bar> < US_PER_DAY
                     then Inr \<lparr>dt_year = year, dt_month = month, dt_day = day,
                               dt_hour = hour, dt_minute = minute, dt_second = second,
                               dt_microsecond = 0, dt_utcoffset = off\<rparr>
                     else Inl ValueError
                 | _ \<Rightarrow> Inl ValueError)))"

subsection \<open>Conversion to the host's local time\<close>

text \<open>
  \<open>d.astimezone()\<close> with no argument, for an aware \<open>d\<close>: \<open>d\<close> is moved to UTC, the host is
  asked (\<open>time.localtime\<close>) for its UTC offset at that instant, cut to whole seconds, and
  the UTC value is moved by that offset. Both moves are datetime additions and can leave
  the range of years. The host's answer is the parameter \<open>gmtoff\<close>: POSIX seconds to
  seconds east of UTC.
\<close>

definition astimezone :: "(int \<Rightarrow> int) \<Rightarrow> datetime \<Rightarrow> exn + datetime" where
  "astimezone gmtoff d =
     (case dt_add d (- dt_utcoffset d) of
        Inl e \<Rightarrow> Inl e
      | Inr utc \<Rightarrow>
          let ts = (wall_us utc - EPOCH_US) div US_PER_SECOND;
              off = gmtoff ts * US_PER_SECOND
          in (case dt_add utc off of
                Inl e \<Rightarrow> Inl e
              | Inr loc \<Rightarrow> Inr (loc\<lparr>dt_utcoffset := off\<rparr>)))"

section \<open>\<open>json.dumps\<close> of an event list\<close>

text \<open>
  The list holds triples of strings; a tuple is written as a JSON array, items are
  separated by a comma and a blank, and strings are escaped to ASCII: the quote and the
  backslash get a backslash, the five short escapes are used, and every other character
  outside \<open>' '..'~'\<close> becomes \<open>\u00XX\<close> (a \<open>char\<close> is a code point below 256).
\<close>

definition hex_char :: "nat \<Rightarrow> char" where
  "hex_char n = ''0123456789abcdef'' ! (n mod 16)"

definition json_escape :: "char \<Rightarrow> string" where
  "json_escape c =
     (let n = (of_char c :: nat)
      in if n = 34 then [CHR 0x5C, CHR 0x22]
         else if n = 92 then [CHR 0x5C, CHR 0x5C]
         else if n = 10 then [CHR 0x5C, CHR ''n'']
         else if n = 13 then [CHR 0x5C, CHR ''r'']
         else if n = 9 then [CHR 0x5C, CHR ''t'']
         else if n = 12 then [CHR 0x5C, CHR ''f'']
         else if n = 8 then [CHR 0x5C, CHR ''b'']
         else if 32 \<le> n \<and> n \<le> 126 then [c]
         else [CHR 0x5C, CHR ''u'', CHR ''0'', CHR ''0'', hex_char (n div 16), hex_char n])"

definition json_str :: "string \<Rightarrow> string" where
  "json_str s = [CHR 0x22] @ concat (map json_escape s) @ [CHR 0x22]"

fun join :: "string \<Rightarrow> string list \<Rightarrow> string" where
  "join sep [] = []"
| "join sep [x] = x"
| "join sep (x # y # ys) = x @ sep @ join sep (y # ys)"

definition json_triple :: "string \<times> string \<times> string \<Rightarrow> string" where
  "json_triple t =
     (case t of (a, b, c) \<Rightarrow> ''['' @ join '', '' [json_str a, json_str b, json_str c] @ '']'')"

definition json_dumps :: "(string \<times> string \<times> string) list \<Rightarrow> string" where
  "json_dumps evs = ''['' @ join '', '' (map json_triple evs) @ '']''"

section \<open>The world outside the module\<close>

text \<open>
  \<open>Credentials\<close> as the module reads them: \<open>valid\<close> and \<open>expired\<close> are properties the
  library computes, \<open>refresh_token\<close> is tested for truth (neither \<open>None\<close> nor empty).
\<close>

record creds =
  cr_token :: string
  cr_refresh_token :: "string option"
  cr_valid :: bool
  cr_expired :: bool

text \<open>The dictionary pickled into \<open>events_cache.pkl\<close> (lines 131 to 137). Line 137 is the
  only place that writes the file, so a file that exists holds such a record.\<close>

record cache_data =
  timestamp :: real
  event_list :: "(string \<times> string \<times> string) list"

text \<open>An event resource of the service, as far as the module reads it: \<open>start\<close> and \<open>end\<close>
  hold \<open>dateTime\<close> for a timed event and \<open>date\<close> for an all-day one; \<open>summary\<close> is
  left out for an event without a title.\<close>

record event_time =
  et_dateTime :: "string option"
  et_date :: "string option"

record raw_event =
  ev_start :: event_time
  ev_end :: event_time
  ev_summary :: "string option"

text \<open>The keyword arguments of \<open>service.events().list\<close> (line 106).\<close>

record list_request =
  calendarId :: string
  timeMin :: string
  timeMax :: string
  singleEvents :: bool
  orderBy :: string
  lr_timeZone :: "string option"

datatype remote_call =
    AuthRefresh
  | AuthFlow
  | Build
  | CalendarsGet string
  | EventsList list_request
  | EventsInsert string pyval

text \<open>What \<open>print\<close> was given: a line of text, or the event list itself (line 129).\<close>

datatype printed =
    Line string
  | EventList "(string \<times> string \<times> string) list"

text \<open>
  The state the module reads and writes: the two files, the system clock, standard
  output, and a record of every request that left the process. The clock is the sequence
  of its readings, \<open>ticks\<close> counting those taken so far; a reading is the exact value of the
  float \<open>time.time()\<close> returns.
\<close>

record world =
  token_file :: "creds option"
  cache_file :: "cache_data option"
  clock :: "nat \<Rightarrow> real"
  ticks :: nat
  stdout :: "printed list"
  remote_log :: "remote_call list"

text \<open>
  The collaborators: how the OAuth library and the calendar service answer, and the host's
  time zone (\<open>time.localtime\<close>: POSIX seconds to seconds east of UTC). \<open>calendars_get\<close> is
  the answer to \<open>calendars().get(calendarId='primary')\<close>, reduced to its \<open>timeZone\<close> entry;
  \<open>events_list\<close> answers with the \<open>items\<close> entry of the result, if it has one;
  \<open>events_insert\<close> with the \<open>htmlLink\<close> entry of the created event.
\<close>

record env =
  refresh :: "creds \<Rightarrow> exn + creds"
  run_flow :: "exn + creds"
  build :: "creds \<Rightarrow> exn + unit"
  calendars_get :: "exn + string option"
  events_list :: "list_request \<Rightarrow> exn + raw_event list option"
  events_insert :: "pyval \<Rightarrow> exn + string option"
  localtime_gmtoff :: "int \<Rightarrow> int"

definition time_time :: "world \<Rightarrow> real \<times> world" where
  "time_time w = (clock w (ticks w), w\<lparr>ticks := Suc (ticks w)\<rparr>)"

definition print_out :: "printed \<Rightarrow> world \<Rightarrow> world" where
  "print_out p w = w\<lparr>stdout := stdout w @ [p]\<rparr>"

definition call :: "remote_call \<Rightarrow> world \<Rightarrow> world" where
  "call c w = w\<lparr>remote_log := remote_log w @ [c]\<rparr>"

text \<open>How a call of one of the module's functions ends.\<close>

datatype outcome =
    Return string
  | ReturnNone
  | Raise exn

section \<open>\<open>get_credentials\<close>\<close>

text \<open>
  Lines 45 to 72. Stored credentials that are valid are returned as they are. Expired ones
  with a refresh token are refreshed; in every other case the interactive flow runs
  (\<open>login\<close>, lines 66 to 68). After either, the credentials are written back to the token
  file; an exception raised by the refresh or the flow leaves the function before that.
\<close>

definition login :: "env \<Rightarrow> world \<Rightarrow> (exn + creds) \<times> world" where
  "login env w =
     (case run_flow env of
        Inl e \<Rightarrow> (Inl e, call AuthFlow w)
      | Inr c \<Rightarrow> (Inr c, (call AuthFlow w)\<lparr>token_file := Some c\<rparr>))"

definition get_credentials :: "env \<Rightarrow> world \<Rightarrow> (exn + creds) \<times> world" where
  "get_credentials env w =
     (case token_file w of
        None \<Rightarrow> login env w
      | Some c \<Rightarrow>
          if cr_valid c then (Inr c, w)
          else if cr_expired c \<and> cr_refresh_token c \<noteq> None \<and> cr_refresh_token c \<noteq> Some []
          then (case refresh env c of
                  Inl e \<Rightarrow> (Inl e, call AuthRefresh w)
                | Inr c' \<Rightarrow> (Inr c', (call AuthRefresh w)\<lparr>token_file := Some c'\<rparr>))
          else login env w)"

section \<open>\<open>get_today_events\<close>\<close>

definition CACHE_DURATION :: real where
  "CACHE_DURATION = 360"

text \<open>Lines 85 to 91: the cached list if the file exists and is fresh. The clock is read
  only when the file exists. The comparison is made on the exact values: the difference
  of two floats that lie within a factor of two of each other, as two clock readings do,
  is computed without rounding.\<close>

definition cache_lookup :: "world \<Rightarrow> (string \<times> string \<times> string) list option \<times> world" where
  "cache_lookup w =
     (case cache_file w of
        None \<Rightarrow> (None, w)
      | Some cd \<Rightarrow>
          (case time_time w of
             (now, w') \<Rightarrow>
               if now - timestamp cd < CACHE_DURATION
               then (Some (event_list cd), print_out (Line ''Using cached data.'') w')
               else (None, w')))"

text \<open>\<open>datetime.datetime.now(datetime.timezone.utc)\<close> from a clock reading, cut to whole
  microseconds; a reading outside the years 1 to 9999 raises.\<close>

definition utc_now :: "real \<Rightarrow> exn + datetime" where
  "utc_now t =
     (let n = EPOCH_US + \<lfloor>t * 1000000\<rfloor>
      in if n div US_PER_DAY < 1 \<or> n div US_PER_DAY > MAXORDINAL then Inl ValueError
         else Inr (of_wall_us n 0))"

definition midnight :: "datetime \<Rightarrow> datetime" where
  "midnight d = d\<lparr>dt_hour := 0, dt_minute := 0, dt_second := 0, dt_microsecond := 0\<rparr>"

text \<open>Lines 100 to 103: \<open>start\<close> and \<open>end\<close> of the query window, from the clock reading and
  the host's time zone.\<close>

definition day_window :: "(int \<Rightarrow> int) \<Rightarrow> real \<Rightarrow> exn + (string \<times> string)" where
  "day_window gmtoff t =
     (case utc_now t of
        Inl e \<Rightarrow> Inl e
      | Inr u \<Rightarrow>
         (case astimezone gmtoff u of
            Inl e \<Rightarrow> Inl e
          | Inr today \<Rightarrow>
             (case dt_add today US_PER_DAY of
                Inl e \<Rightarrow> Inl e
              | Inr tomorrow \<Rightarrow> Inr (isoformat (midnight today), isoformat (midnight tomorrow)))))"

text \<open>Lines 94 to 108: build the client, read the primary calendar's time zone, compute
  the window and list the events in it.\<close>

definition request_events :: "env \<Rightarrow> creds \<Rightarrow> world \<Rightarrow> (exn + raw_event list) \<times> world" where
  "request_events env creds w0 =
     (let w1 = call Build w0
      in case build env creds of
           Inl e \<Rightarrow> (Inl e, w1)
         | Inr _ \<Rightarrow>
            (let w2 = call (CalendarsGet ''primary'') w1
             in case calendars_get env of
                  Inl e \<Rightarrow> (Inl e, w2)
                | Inr time_zone \<Rightarrow>
                   (case time_time w2 of
                      (t, w3) \<Rightarrow>
                        (case day_window (localtime_gmtoff env) t of
                           Inl e \<Rightarrow> (Inl e, w3)
                         | Inr (start_iso, end_iso) \<Rightarrow>
                            (let w4 = print_out (Line ''Getting today's events'') w3;
                                 req = \<lparr>calendarId = ''primary'', timeMin = start_iso, timeMax = end_iso,
                                        singleEvents = True, orderBy = ''startTime'',
                                        lr_timeZone = time_zone\<rparr>;
                                 w5 = call (EventsList req) w4
                             in case events_list env req of
                                  Inl e \<Rightarrow> (Inl e, w5)
                                | Inr items \<Rightarrow>
                                    (Inr (case items of None \<Rightarrow> [] | Some evs \<Rightarrow> evs), w5))))))"

text \<open>Lines 117 to 120 (and 122 to 125): parse, convert to the host's zone, format.\<close>

definition display_time :: "(int \<Rightarrow> int) \<Rightarrow> string option \<Rightarrow> exn + string" where
  "display_time gmtoff s =
     (case strptime s of
        Inl e \<Rightarrow> Inl e
      | Inr time_obj \<Rightarrow>
         (case astimezone gmtoff time_obj of
            Inl e \<Rightarrow> Inl e
          | Inr local_time \<Rightarrow> Inr (strftime_I_M_p local_time)))"

text \<open>\<open>x.get('dateTime', x.get('date'))\<close>\<close>

definition dateTime_or_date :: "event_time \<Rightarrow> string option" where
  "dateTime_or_date x = (case et_dateTime x of Some s \<Rightarrow> Some s | None \<Rightarrow> et_date x)"

text \<open>One pass of the loop body, lines 117 to 127; \<open>event['summary']\<close> is read last.\<close>

definition normalize_event :: "(int \<Rightarrow> int) \<Rightarrow> raw_event \<Rightarrow> exn + (string \<times> string \<times> string)" where
  "normalize_event gmtoff event =
     (case display_time gmtoff (dateTime_or_date (ev_start event)) of
        Inl e \<Rightarrow> Inl e
      | Inr start_time \<Rightarrow>
         (case display_time gmtoff (dateTime_or_date (ev_end event)) of
            Inl e \<Rightarrow> Inl e
          | Inr end_time \<Rightarrow>
             (case ev_summary event of
                None \<Rightarrow> Inl (KeyError ''summary'')
              | Some s \<Rightarrow> Inr (start_time, end_time, s))))"

text \<open>The loop of line 116 over the events still to do, with \<open>event_list\<close> as built so far.
  The result is the exception that ended the loop, if any, and \<open>event_list\<close> at that point.\<close>

fun normalize_events ::
  "(int \<Rightarrow> int) \<Rightarrow> raw_event list \<Rightarrow> (string \<times> string \<times> string) list
     \<Rightarrow> exn option \<times> (string \<times> string \<times> string) list"
where
  "normalize_events gmtoff [] acc = (None, acc)"
| "normalize_events gmtoff (event # events) acc =
     (case normalize_event gmtoff event of
        Inl e \<Rightarrow> (Some e, acc)
      | Inr t \<Rightarrow> normalize_events gmtoff events (acc @ [t]))"

text \<open>How the \<open>try\<close> block (lines 93 to 137) ends: at its end, at the \<open>return\<close> of line 112,
  or with an exception.\<close>

datatype block_end =
    Completed
  | Returned
  | Raised exn

definition try_block ::
  "env \<Rightarrow> creds \<Rightarrow> world \<Rightarrow> block_end \<times> (string \<times> string \<times> string) list \<times> world"
where
  "try_block env creds w0 =
     (case request_events env creds w0 of
        (Inl e, w1) \<Rightarrow> (Raised e, [], w1)
      | (Inr events, w1) \<Rightarrow>
          if events = [] then (Returned, [], print_out (Line ''No upcoming events found.'') w1)
          else
            (case normalize_events (localtime_gmtoff env) events [] of
               (Some e, evs) \<Rightarrow> (Raised e, evs, w1)
             | (None, evs) \<Rightarrow>
                 (case time_time (print_out (EventList evs) w1) of
                    (t, w2) \<Rightarrow>
                      (Completed, evs,
                       w2\<lparr>cache_file := Some \<lparr>timestamp = t, event_list = evs\<rparr>\<rparr>))))"

text \<open>Lines 93 to 142: the \<open>try\<close> block, the handler for \<open>HttpError\<close>, and the final
  \<open>return\<close>.\<close>

definition fetch_events :: "env \<Rightarrow> creds \<Rightarrow> world \<Rightarrow> outcome \<times> world" where
  "fetch_events env creds w =
     (case try_block env creds w of
        (Completed, evs, w') \<Rightarrow> (Return (json_dumps evs), w')
      | (Returned, evs, w') \<Rightarrow> (ReturnNone, w')
      | (Raised e, evs, w') \<Rightarrow>
          (case e of
             HttpError msg \<Rightarrow>
               (Return (json_dumps evs), print_out (Line (''An error occurred: '' @ msg)) w')
           | _ \<Rightarrow> (Raise e, w')))"

definition get_today_events :: "env \<Rightarrow> world \<Rightarrow> outcome \<times> world" where
  "get_today_events env w =
     (case get_credentials env w of
        (Inl e, w1) \<Rightarrow> (Raise e, w1)
      | (Inr creds, w1) \<Rightarrow>
          (case cache_lookup w1 of
             (Some cached, w2) \<Rightarrow> (Return (json_dumps cached), w2)
           | (None, w2) \<Rightarrow> fetch_events env creds w2))"

section \<open>\<open>add_event\<close>\<close>

text \<open>Lines 145 to 156. There is no \<open>try\<close>: whatever a step raises ends the call. On
  success the function prints the link of the created event and returns \<open>None\<close>.\<close>

definition add_event :: "env \<Rightarrow> Event \<Rightarrow> world \<Rightarrow> outcome \<times> world" where
  "add_event env new_event w =
     (case get_credentials env w of
        (Inl e, w1) \<Rightarrow> (Raise e, w1)
      | (Inr creds, w1) \<Rightarrow>
          (let w2 = call Build w1
           in case build env creds of
                Inl e \<Rightarrow> (Raise e, w2)
              | Inr _ \<Rightarrow>
                 (let event = to_dict new_event;
                      w3 = call (EventsInsert ''primary'' event) w2
                  in case events_insert env event of
                       Inl e \<Rightarrow> (Raise e, w3)
                     | Inr link \<Rightarrow>
                         (ReturnNone,
                          print_out (Line (''Event created: ''
                            @ (case link of None \<Rightarrow> ''None'' | Some l \<Rightarrow> l))) w3))))"

section \<open>The window the specification describes\<close>

text \<open>
  The specification's reading of the query window, for comparison with \<open>day_window\<close>: the
  start of the current day in a zone that is \<open>off\<close> microseconds east of UTC, as an instant
  (POSIX microseconds), given the current instant \<open>n\<close>.
\<close>

definition spec_day_start :: "int \<Rightarrow> int \<Rightarrow> int" where
  "spec_day_start off n = ((n + off) div US_PER_DAY) * US_PER_DAY - off"

section \<open>Sample collaborators and worlds\<close>

text \<open>
  Concrete inputs for the runs below: credentials that are valid on disk, a host in the
  zone America/Los_Angeles (its two offsets in 2023, daylight time from 2023-03-12T10:00Z
  to 2023-11-05T09:00Z), a calendar service that answers every listing with the given
  result and refuses every insertion, and a world with the given cache file whose clock
  always reads \<open>now\<close>.
\<close>

definition sample_creds :: creds where
  "sample_creds = \<lparr>cr_token = ''ya29.a0'', cr_refresh_token = Some ''1//0g'',
                    cr_valid = True, cr_expired = False\<rparr>"

definition los_angeles_2023 :: "int \<Rightarrow> int" where
  "los_angeles_2023 ts = (if 1678615200 \<le> ts \<and> ts < 1699174800 then - 25200 else - 28800)"

definition sample_env :: "(exn + string option) \<Rightarrow> (exn + raw_event list option) \<Rightarrow> env" where
  "sample_env cal listing =
     \<lparr>refresh = (\<lambda>c. Inr (c\<lparr>cr_valid := True, cr_expired := False\<rparr>)),
      run_flow = Inr sample_creds,
      build = (\<lambda>_. Inr ()),
      calendars_get = cal,
      events_list = (\<lambda>_. listing),
      events_insert = (\<lambda>_. Inl (HttpError ''<HttpError 403 Forbidden>'')),
      localtime_gmtoff = los_angeles_2023\<rparr>"

definition sample_world :: "cache_data option \<Rightarrow> real \<Rightarrow> world" where
  "sample_world cache now =
     \<lparr>token_file = Some sample_creds, cache_file = cache, clock = (\<lambda>_. now), ticks = 0,
      stdout = [], remote_log = []\<rparr>"

definition timed_event :: "string \<Rightarrow> string \<Rightarrow> string option \<Rightarrow> raw_event" where
  "timed_event s e title =
     \<lparr>ev_start = \<lparr>et_dateTime = Some s, et_date = None\<rparr>,
      ev_end = \<lparr>et_dateTime = Some e, et_date = None\<rparr>, ev_summary = title\<rparr>"

definition all_day_event :: "string \<Rightarrow> string \<Rightarrow> string option \<Rightarrow> raw_event" where
  "all_day_event s e title =
     \<lparr>ev_start = \<lparr>et_dateTime = None, et_date = Some s\<rparr>,
      ev_end = \<lparr>et_dateTime = None, et_date = Some e\<rparr>, ev_summary = title\<rparr>"

section \<open>What each part of \<open>get_today_events\<close> touches\<close>

lemma get_credentials_frame:
  "cache_file (snd (get_credentials env w)) = cache_file w
   \<and> clock (snd (get_credentials env w)) = clock w
   \<and> ticks (snd (get_credentials env w)) = ticks w
   \<and> stdout (snd (get_credentials env w)) = stdout w"
  by (simp add: get_credentials_def login_def call_def split: option.splits sum.splits)

lemma sample_credentials:
  "get_credentials (sample_env cal listing) (sample_world cache now)
     = (Inr sample_creds, sample_world cache now)"
  by (simp add: get_credentials_def sample_world_def sample_creds_def)


lemma cache_lookup_expired:
  assumes "cache_file w = Some cd" and "360 \<le> clock w (ticks w) - timestamp cd"
  shows "cache_lookup w = (None, w\<lparr>ticks := Suc (ticks w)\<rparr>)"
  using assms by (simp add: cache_lookup_def time_time_def CACHE_DURATION_def)

lemma cache_lookup_cache: "cache_file (snd (cache_lookup w)) = cache_file w"
  by (simp add: cache_lookup_def time_time_def print_out_def split: option.splits)




lemma request_events_cache:
  "cache_file (snd (request_events env creds w)) = cache_file w"
  by (auto simp: request_events_def call_def time_time_def print_out_def Let_def
           split: sum.splits prod.splits)



section \<open>Which exceptions the library calls raise\<close>

lemma dt_add_error: "dt_add d n = Inl e \<Longrightarrow> e = OverflowError"
  by (simp add: dt_add_def Let_def split: if_splits)

lemma astimezone_error: "astimezone g d = Inl e \<Longrightarrow> e = OverflowError"
  by (auto simp: astimezone_def Let_def split: sum.splits dest: dt_add_error)

lemma strptime_error: "strptime s = Inl e \<Longrightarrow> e = TypeError \<or> e = ValueError"
  by (auto simp: strptime_def split: option.splits list.splits prod.splits if_splits)

lemma display_time_error:
  "display_time g s = Inl e \<Longrightarrow> e = TypeError \<or> e = ValueError \<or> e = OverflowError"
  by (auto simp: display_time_def split: sum.splits dest: strptime_error astimezone_error)

lemma utc_now_error: "utc_now t = Inl e \<Longrightarrow> e = ValueError"
  by (simp add: utc_now_def Let_def split: if_splits)

lemma day_window_error: "day_window g t = Inl e \<Longrightarrow> e = ValueError \<or> e = OverflowError"
  by (auto simp: day_window_def split: sum.splits
           dest: utc_now_error astimezone_error dt_add_error)

lemma normalize_event_error:
  "normalize_event g ev = Inl e
     \<Longrightarrow> e = TypeError \<or> e = ValueError \<or> e = OverflowError \<or> e = KeyError ''summary''"
  by (auto simp: normalize_event_def split: sum.splits option.splits dest: display_time_error)

lemma normalize_events_error:
  "normalize_events g evs acc = (Some e, out)
     \<Longrightarrow> e = TypeError \<or> e = ValueError \<or> e = OverflowError \<or> e = KeyError ''summary''"
proof (induction evs arbitrary: acc)
  case Nil
  then show ?case by simp
next
  case (Cons ev evs)
  show ?case
  proof (cases "normalize_event g ev")
    case (Inl x)
    with Cons.prems have "x = e" by simp
    with Inl show ?thesis using normalize_event_error by blast
  next
    case (Inr t)
    with Cons.prems have "normalize_events g evs (acc @ [t]) = (Some e, out)" by simp
    then show ?thesis by (rule Cons.IH)
  qed
qed

text \<open>A \<open>HttpError\<close> can leave the \<open>try\<close> block only from one of the three requests, and
  then the loop has not started: \<open>event_list\<close> is still empty.\<close>

lemma try_block_http:
  assumes "try_block env creds w = (Raised (HttpError msg), evs, w')"
  shows "evs = [] \<and> request_events env creds w = (Inl (HttpError msg), w')"
proof (cases "request_events env creds w")
  case (Pair r w1)
  show ?thesis
  proof (cases r)
    case (Inl e)
    with Pair assms show ?thesis by (simp add: try_block_def)
  next
    case (Inr events)
    show ?thesis
    proof (cases "events = []")
      case True
      with Pair Inr assms show ?thesis by (simp add: try_block_def)
    next
      case False
      obtain r' out where n: "normalize_events (localtime_gmtoff env) events [] = (r', out)"
        by (cases "normalize_events (localtime_gmtoff env) events []")
      show ?thesis
      proof (cases r')
        case None
        with Pair Inr False n assms show ?thesis
          by (simp add: try_block_def split: prod.splits)
      next
        case (Some e)
        with Pair Inr False n assms have "e = HttpError msg"
          by (simp add: try_block_def)
        with Some n normalize_events_error [of "localtime_gmtoff env" events "[]" e out]
        show ?thesis by simp
      qed
    qed
  qed
qed

lemma request_events_http_sites:
  "(\<exists>w'. request_events env creds w = (Inl (HttpError msg), w'))
   \<longleftrightarrow> build env creds = Inl (HttpError msg)
       \<or> (\<exists>u. build env creds = Inr u) \<and> calendars_get env = Inl (HttpError msg)
       \<or> (\<exists>u tz s e. build env creds = Inr u \<and> calendars_get env = Inr tz
            \<and> day_window (localtime_gmtoff env) (clock w (ticks w)) = Inr (s, e)
            \<and> events_list env \<lparr>calendarId = ''primary'', timeMin = s, timeMax = e,
                 singleEvents = True, orderBy = ''startTime'', lr_timeZone = tz\<rparr>
                = Inl (HttpError msg))"
  by (auto simp: request_events_def call_def time_time_def print_out_def Let_def
           split: sum.splits prod.splits dest: day_window_error)

lemma json_dumps_empty: "json_dumps [] = ''[]''"
  by (simp add: json_dumps_def)

lemma try_block_cache:
  assumes "try_block env creds w = (b, evs, w')"
  shows "b \<noteq> Completed \<Longrightarrow> cache_file w' = cache_file w"
    and "b = Completed \<Longrightarrow>
           \<exists>events t. fst (request_events env creds w) = Inr events \<and> events \<noteq> []
             \<and> normalize_events (localtime_gmtoff env) events [] = (None, evs)
             \<and> cache_file w' = Some \<lparr>timestamp = t, event_list = evs\<rparr>"
  using assms request_events_cache [of env creds w]
  by (auto simp: try_block_def time_time_def print_out_def
           split: sum.splits prod.splits option.splits if_splits)

lemma fetch_events_cache:
  assumes "try_block env creds w = (b, evs, w')"
  shows "cache_file (snd (fetch_events env creds w)) = cache_file w'"
    and "b = Completed \<Longrightarrow> fst (fetch_events env creds w) = Return (json_dumps evs)"
  using assms
  by (auto simp: fetch_events_def print_out_def split: block_end.splits exn.splits)

section \<open>Calendar arithmetic\<close>

text \<open>
  \<open>ord2ymd\<close> inverts \<open>ymd2ord\<close>, so a datetime rebuilt from its wall-clock microseconds
  denotes them again; \<open>astimezone\<close> keeps the instant; and the two ends of \<open>day_window\<close>
  are the latest midnight on the host's wall clock and the one 24 hours later.
\<close>

lemma doy2md_all:
  "list_all (\<lambda>r. list_all (\<lambda>leap. case doy2md leap r of (m, d) \<Rightarrow>
       1 \<le> m \<and> m \<le> 12 \<and> 1 \<le> d
       \<and> d \<le> (if m = 2 then (if leap then 29 else 28)
                 else if m = 4 \<or> m = 6 \<or> m = 9 \<or> m = 11 then 30 else 31)
       \<and> DAYS_BEFORE_MONTH m + (if m > 2 \<and> leap then 1 else 0) + d = r + 1) [True, False]) [0..364]"
  by code_simp

lemma doy2md_correct:
  assumes "0 \<le> r" "r \<le> 364" "doy2md leap r = (m, d)"
  shows "1 \<le> m \<and> m \<le> 12 \<and> 1 \<le> d
       \<and> d \<le> (if m = 2 then (if leap then 29 else 28)
                 else if m = 4 \<or> m = 6 \<or> m = 9 \<or> m = 11 then 30 else 31)
       \<and> DAYS_BEFORE_MONTH m + (if m > 2 \<and> leap then 1 else 0) + d = r + 1"
proof -
  have "r \<in> set [0..364]" using assms by simp
  moreover have "leap \<in> set [True, False]" by auto
  ultimately show ?thesis
    using doy2md_all assms(3) unfolding list_all_iff by fastforce
qed


lemma cycles_div:
  fixes a b c d :: int
  assumes "0 \<le> b" "b \<le> 3" "0 \<le> c" "c \<le> 24" "0 \<le> d" "d \<le> 3"
  shows "(a * 400 + b * 100 + c * 4 + d) div 4 = a * 100 + b * 25 + c"
    and "(a * 400 + b * 100 + c * 4 + d) div 100 = a * 4 + b"
    and "(a * 400 + b * 100 + c * 4 + d) div 400 = a"
proof -
  have "(a * 400 + b * 100 + c * 4 + d) div 4 = (d + (a * 100 + b * 25 + c) * 4) div 4"
    by (simp add: algebra_simps)
  also have "\<dots> = (a * 100 + b * 25 + c) + d div 4"
    by (rule div_mult_self1) simp
  also have "d div 4 = 0"
    using assms by simp
  finally show "(a * 400 + b * 100 + c * 4 + d) div 4 = a * 100 + b * 25 + c"
    by simp
  have "(a * 400 + b * 100 + c * 4 + d) div 100 = ((c * 4 + d) + (a * 4 + b) * 100) div 100"
    by (simp add: algebra_simps)
  also have "\<dots> = (a * 4 + b) + (c * 4 + d) div 100"
    by (rule div_mult_self1) simp
  also have "(c * 4 + d) div 100 = 0"
    using assms by simp
  finally show "(a * 400 + b * 100 + c * 4 + d) div 100 = a * 4 + b"
    by simp
  have "(a * 400 + b * 100 + c * 4 + d) div 400 = ((b * 100 + c * 4 + d) + a * 400) div 400"
    by (simp add: algebra_simps)
  also have "\<dots> = a + (b * 100 + c * 4 + d) div 400"
    by (rule div_mult_self1) simp
  also have "(b * 100 + c * 4 + d) div 400 = 0"
    using assms by simp
  finally show "(a * 400 + b * 100 + c * 4 + d) div 400 = a"
    by simp
qed

lemma days_before_year_cycles:
  assumes "0 \<le> b" "b \<le> 3" "0 \<le> c" "c \<le> 24" "0 \<le> d" "d \<le> 3"
  shows "days_before_year (a * 400 + 1 + b * 100 + c * 4 + d)
           = 146097 * a + 36524 * b + 1461 * c + 365 * d"
proof -
  have "a * 400 + 1 + b * 100 + c * 4 + d - 1 = a * 400 + b * 100 + c * 4 + d"
    by simp
  then show ?thesis
    unfolding days_before_year_def by (simp only: cycles_div [OF assms]) simp
qed

lemma cycles_mod:
  fixes a b c d :: int
  shows "(a * 400 + 1 + b * 100 + c * 4 + d) mod 4 = (d + 1) mod 4"
    and "(a * 400 + 1 + b * 100 + c * 4 + d) mod 100 = (c * 4 + d + 1) mod 100"
    and "(a * 400 + 1 + b * 100 + c * 4 + d) mod 400 = (b * 100 + c * 4 + d + 1) mod 400"
proof -
  have "(a * 400 + 1 + b * 100 + c * 4 + d) = (d + 1) + (a * 100 + b * 25 + c) * 4"
    by simp
  then show "(a * 400 + 1 + b * 100 + c * 4 + d) mod 4 = (d + 1) mod 4"
    by (simp only: mod_mult_self1)
  have "(a * 400 + 1 + b * 100 + c * 4 + d) = (c * 4 + d + 1) + (a * 4 + b) * 100"
    by simp
  then show "(a * 400 + 1 + b * 100 + c * 4 + d) mod 100 = (c * 4 + d + 1) mod 100"
    by (simp only: mod_mult_self1)
  have "(a * 400 + 1 + b * 100 + c * 4 + d) = (b * 100 + c * 4 + d + 1) + a * 400"
    by simp
  then show "(a * 400 + 1 + b * 100 + c * 4 + d) mod 400 = (b * 100 + c * 4 + d + 1) mod 400"
    by (simp only: mod_mult_self1)
qed

lemma mod_zero_iff_top:
  fixes x m :: int
  assumes "0 < x" "x \<le> m"
  shows "x mod m = 0 \<longleftrightarrow> x = m"
proof (cases "x = m")
  case True
  then show ?thesis by simp
next
  case False
  with assms have "x mod m = x" by simp
  with assms False show ?thesis by simp
qed

lemma is_leap_cycles:
  assumes "0 \<le> b" "b \<le> 3" "0 \<le> c" "c \<le> 24" "0 \<le> d" "d \<le> 3"
  shows "is_leap (a * 400 + 1 + b * 100 + c * 4 + d) \<longleftrightarrow> (d = 3 \<and> (c \<noteq> 24 \<or> b = 3))"
proof -
  have "(d + 1) mod 4 = 0 \<longleftrightarrow> d + 1 = 4"
    using assms by (intro mod_zero_iff_top) simp_all
  then have 4: "(d + 1) mod 4 = 0 \<longleftrightarrow> d = 3"
    by simp
  have "(c * 4 + d + 1) mod 100 = 0 \<longleftrightarrow> c * 4 + d + 1 = 100"
    using assms by (intro mod_zero_iff_top) simp_all
  also have "\<dots> \<longleftrightarrow> c = 24 \<and> d = 3"
    using assms by arith
  finally have 100: "(c * 4 + d + 1) mod 100 = 0 \<longleftrightarrow> c = 24 \<and> d = 3" .
  have "(b * 100 + c * 4 + d + 1) mod 400 = 0 \<longleftrightarrow> b * 100 + c * 4 + d + 1 = 400"
    using assms by (intro mod_zero_iff_top) simp_all
  also have "\<dots> \<longleftrightarrow> b = 3 \<and> c = 24 \<and> d = 3"
    using assms by arith
  finally have 400: "(b * 100 + c * 4 + d + 1) mod 400 = 0 \<longleftrightarrow> b = 3 \<and> c = 24 \<and> d = 3" .
  show ?thesis
    unfolding is_leap_def cycles_mod by (simp only: 4 100 400) blast
qed


lemma ord2ymd_roundtrip:
  assumes "1 \<le> n" and "ord2ymd n = (y, m, dd)"
  shows "ymd2ord y m dd = n \<and> 1 \<le> m \<and> m \<le> 12 \<and> 1 \<le> dd \<and> dd \<le> days_in_month y m"
proof -
  define k where "k = n - 1"
  define a where "a = k div 146097"
  define r1 where "r1 = k mod 146097"
  define b where "b = r1 div 36524"
  define r2 where "r2 = r1 mod 36524"
  define c where "c = r2 div 1461"
  define r3 where "r3 = r2 mod 1461"
  define d where "d = r3 div 365"
  define r4 where "r4 = r3 mod 365"
  have k: "k = 146097 * a + r1" "0 \<le> r1" "r1 < 146097"
    by (simp_all add: a_def r1_def)
  have r1: "r1 = 36524 * b + r2" "0 \<le> r2" "r2 < 36524"
    by (simp_all add: b_def r2_def)
  have r2: "r2 = 1461 * c + r3" "0 \<le> r3" "r3 < 1461"
    by (simp_all add: c_def r3_def)
  have r3: "r3 = 365 * d + r4" "0 \<le> r4" "r4 < 365"
    by (simp_all add: d_def r4_def)
  have b: "0 \<le> b" "b \<le> 4"
    using k r1 by arith+
  have c: "0 \<le> c" "c \<le> 24"
    using r1 r2 by arith+
  have d: "0 \<le> d" "d \<le> 4"
    using r2 r3 by arith+
  have n: "n = 146097 * a + 36524 * b + 1461 * c + 365 * d + r4 + 1"
    using k r1 r2 r3 by (simp add: k_def)
  have unfold: "ord2ymd n =
      (if d = 4 \<or> b = 4 then (a * 400 + 1 + b * 100 + c * 4 + d - 1, 12, 31)
       else case doy2md (d = 3 \<and> (c \<noteq> 24 \<or> b = 3)) r4 of
              (month, day) \<Rightarrow> (a * 400 + 1 + b * 100 + c * 4 + d, month, day))"
    by (simp add: ord2ymd_def Let_def k_def a_def r1_def b_def r2_def c_def r3_def d_def r4_def)
  show ?thesis
  proof (cases "b = 4")
    case True
    with k r1 have "r2 = 0" by arith
    with r2 r3 c d have z: "c = 0" "d = 0" "r4 = 0" by arith+
    from True z unfold assms(2) have ymd: "y = a * 400 + 400" "m = 12" "dd = 31"
      by simp_all
    have "days_before_year (a * 400 + 1 + 3 * 100 + 24 * 4 + 3)
            = 146097 * a + 36524 * 3 + 1461 * 24 + 365 * 3"
      by (rule days_before_year_cycles) simp_all
    then have dby: "days_before_year y = 146097 * a + 145731"
      by (simp add: ymd add.commute)
    have "is_leap (a * 400 + 1 + 3 * 100 + 24 * 4 + 3)"
      by (subst is_leap_cycles) simp_all
    then have leap: "is_leap y"
      by (simp add: ymd add.commute)
    show ?thesis
      using dby leap n True z
      by (simp add: ymd ymd2ord_def days_before_month_def DAYS_BEFORE_MONTH_def days_in_month_def)
  next
    case b3: False
    with b have b': "b \<le> 3" by simp
    show ?thesis
    proof (cases "d = 4")
      case True
      with r2 r3 have r4z: "r4 = 0" by arith
      from True r2 r3 r1 have c': "c \<le> 23" by arith
      from True unfold assms(2) have ymd: "y = a * 400 + 1 + b * 100 + c * 4 + 3" "m = 12" "dd = 31"
        by simp_all
      have dby: "days_before_year y = 146097 * a + 36524 * b + 1461 * c + 365 * 3"
        unfolding ymd using b b' c by (intro days_before_year_cycles) simp_all
      have "is_leap y \<longleftrightarrow> ((3::int) = 3 \<and> (c \<noteq> 24 \<or> b = 3))"
        unfolding ymd using b b' c by (intro is_leap_cycles) simp_all
      with c' have leap: "is_leap y" by simp
      show ?thesis
        using dby leap n True r4z
        by (simp add: ymd(2,3) ymd2ord_def days_before_month_def DAYS_BEFORE_MONTH_def
                      days_in_month_def)
    next
      case False
      with d have d': "d \<le> 3" by simp
      let ?leap = "d = 3 \<and> (c \<noteq> 24 \<or> b = 3)"
      from b3 False unfold assms(2)
      have ymd: "y = a * 400 + 1 + b * 100 + c * 4 + d" "doy2md ?leap r4 = (m, dd)"
        by (auto split: prod.splits)
      have dby: "days_before_year y = 146097 * a + 36524 * b + 1461 * c + 365 * d"
        unfolding ymd using b b' c d d' by (intro days_before_year_cycles) simp_all
      have leap: "is_leap y \<longleftrightarrow> ?leap"
        unfolding ymd using b b' c d d' by (intro is_leap_cycles) simp_all
      from r3 have "0 \<le> r4" "r4 \<le> 364" by simp_all
      from doy2md_correct [OF this ymd(2)]
      have md: "1 \<le> m" "m \<le> 12" "1 \<le> dd"
        "dd \<le> (if m = 2 then (if ?leap then 29 else 28)
                 else if m = 4 \<or> m = 6 \<or> m = 9 \<or> m = 11 then 30 else 31)"
        "DAYS_BEFORE_MONTH m + (if m > 2 \<and> ?leap then 1 else 0) + dd = r4 + 1"
        by simp_all
      have "ymd2ord y m dd = n"
        using dby md(5) n by (simp add: ymd2ord_def days_before_month_def leap)
      moreover have "dd \<le> days_in_month y m"
        using md(4) unfolding days_in_month_def leap by (auto split: if_splits)
      ultimately show ?thesis
        using md(1-3) by simp
    qed
  qed
qed


lemma wall_us_of_wall_us:
  assumes "1 \<le> n div US_PER_DAY"
  shows "wall_us (of_wall_us n off) = n"
    and "wall_us (midnight (of_wall_us n off)) = (n div US_PER_DAY) * US_PER_DAY"
    and "dt_utcoffset (of_wall_us n off) = off"
proof -
  obtain y m d where o: "ord2ymd (n div US_PER_DAY) = (y, m, d)"
    by (cases "ord2ymd (n div US_PER_DAY)") auto
  from ord2ymd_roundtrip [OF assms o] have ord: "ymd2ord y m d = n div US_PER_DAY"
    by simp
  define r where "r = n mod US_PER_DAY"
  define s where "s = r div US_PER_SECOND"
  have r: "0 \<le> r" "r < 86400000000"
    by (simp_all add: r_def US_PER_DAY_def)
  have s: "0 \<le> s" "s < 86400"
    using r by (simp_all add: s_def US_PER_SECOND_def div_less_iff_less_mult pos_imp_zdiv_nonneg_iff)
  have "(s mod 3600) mod 60 = s mod 60"
    by (rule mod_mod_cancel) simp
  then have "(s mod 3600) div 60 * 60 + s mod 60 = s mod 3600"
    using div_mult_mod_eq [of "s mod 3600" 60] by simp
  then have "s div 3600 * 3600 + ((s mod 3600) div 60 * 60 + s mod 60)
               = s div 3600 * 3600 + s mod 3600"
    by (simp only:)
  then have hms: "s div 3600 * 3600 + (s mod 3600) div 60 * 60 + s mod 60 = s"
    by (simp add: add.assoc)
  have us: "s * US_PER_SECOND + r mod US_PER_SECOND = r"
    by (simp add: s_def)
  have n: "n = (n div US_PER_DAY) * US_PER_DAY + r"
    by (simp add: r_def)
  have rec: "of_wall_us n off
      = \<lparr>dt_year = y, dt_month = m, dt_day = d,
         dt_hour = s div 3600, dt_minute = (s mod 3600) div 60, dt_second = s mod 60,
         dt_microsecond = r mod US_PER_SECOND, dt_utcoffset = off\<rparr>"
    by (simp add: of_wall_us_def o Let_def r_def s_def)
  have "wall_us (of_wall_us n off)
          = (ymd2ord y m d * 86400 + (s div 3600 * 3600 + (s mod 3600) div 60 * 60 + s mod 60))
              * US_PER_SECOND + r mod US_PER_SECOND"
    by (simp add: wall_us_def rec add.assoc)
  also have "\<dots> = (n div US_PER_DAY) * 86400 * US_PER_SECOND + (s * US_PER_SECOND + r mod US_PER_SECOND)"
    by (simp only: hms ord) (simp add: algebra_simps)
  also have "\<dots> = (n div US_PER_DAY) * US_PER_DAY + r"
    by (simp only: us) (simp add: US_PER_DAY_def US_PER_SECOND_def)
  finally show "wall_us (of_wall_us n off) = n"
    using n by simp
  show "wall_us (midnight (of_wall_us n off)) = (n div US_PER_DAY) * US_PER_DAY"
    using ord by (simp add: wall_us_def midnight_def rec US_PER_DAY_def US_PER_SECOND_def)
  show "dt_utcoffset (of_wall_us n off) = off"
    by (simp add: rec)
qed


lemma dt_add_Inr:
  assumes "dt_add d delta = Inr r"
  shows "1 \<le> (wall_us d + delta) div US_PER_DAY"
    and "r = of_wall_us (wall_us d + delta) (dt_utcoffset d)"
  using assms by (simp_all add: dt_add_def Let_def split: if_splits)


lemma of_wall_us_offset: "(of_wall_us n x)\<lparr>dt_utcoffset := off\<rparr> = of_wall_us n off"
  by (simp add: of_wall_us_def Let_def split: prod.splits)

text \<open>\<open>astimezone\<close> keeps the instant and moves the wall clock to the host's offset at
  that instant.\<close>

lemma astimezone_Inr:
  assumes "astimezone g d = Inr r"
  defines "u \<equiv> wall_us d - dt_utcoffset d"
  defines "off \<equiv> g ((u - EPOCH_US) div US_PER_SECOND) * US_PER_SECOND"
  shows "r = of_wall_us (u + off) off"
    and "1 \<le> (u + off) div US_PER_DAY"
    and "wall_us r = u + off"
    and "dt_utcoffset r = off"
    and "posix_us r = posix_us d"
proof -
  from assms(1) obtain utc where utc: "dt_add d (- dt_utcoffset d) = Inr utc"
    by (auto simp: astimezone_def split: sum.splits)
  from dt_add_Inr [OF utc] have u1: "1 \<le> u div US_PER_DAY"
    and utc_eq: "utc = of_wall_us u (dt_utcoffset d)"
    by (simp_all add: u_def)
  from wall_us_of_wall_us [OF u1] utc_eq have wu: "wall_us utc = u" "dt_utcoffset utc = dt_utcoffset d"
    by simp_all
  from assms(1) utc wu obtain loc where
    loc: "dt_add utc off = Inr loc" and r: "r = loc\<lparr>dt_utcoffset := off\<rparr>"
    by (auto simp: astimezone_def Let_def off_def split: sum.splits)
  from dt_add_Inr [OF loc] wu show 2: "1 \<le> (u + off) div US_PER_DAY"
    by simp
  from dt_add_Inr(2) [OF loc] wu r show 1: "r = of_wall_us (u + off) off"
    by (simp add: of_wall_us_offset)
  from wall_us_of_wall_us [OF 2] 1 show 3: "wall_us r = u + off" and 4: "dt_utcoffset r = off"
    by simp_all
  from 3 4 show "posix_us r = posix_us d"
    by (simp add: posix_us_def u_def)
qed




text \<open>The start of the day is the last instant, not after \<open>n\<close>, at which a clock
  running \<open>off\<close> ahead of UTC shows midnight.\<close>

lemma spec_day_start_bounds:
  "spec_day_start off n \<le> n"
  "n < spec_day_start off n + US_PER_DAY"
  "(spec_day_start off n + off) mod US_PER_DAY = 0"
proof -
  have pos: "0 < US_PER_DAY"
    by (simp add: US_PER_DAY_def)
  have "(n + off) div US_PER_DAY * US_PER_DAY = (n + off) - (n + off) mod US_PER_DAY"
    by (simp add: algebra_simps minus_mod_eq_mult_div)
  moreover have "0 \<le> (n + off) mod US_PER_DAY" "(n + off) mod US_PER_DAY < US_PER_DAY"
    using pos by simp_all
  ultimately show "spec_day_start off n \<le> n" "n < spec_day_start off n + US_PER_DAY"
    unfolding spec_day_start_def by linarith+
  show "(spec_day_start off n + off) mod US_PER_DAY = 0"
    by (simp add: spec_day_start_def)
qed


section \<open>Cache validity\<close>





section \<open>Errors of the calendar service during the fetch\<close>

text \<open>
  C6. When the \<open>try\<close> block of \<open>get_today_events\<close> ends with a \<open>HttpError\<close> (the error of
  a failed request to the service, from the construction of the client, the calendar
  lookup or the listing), the error is caught: the line "An error occurred: ..." is
  printed and the call returns \<open>json.dumps\<close> of the list accumulated so far, which is
  always the empty list, so the caller receives \<open>[]\<close> and no exception.
\<close>

theorem http_error_caught:
  assumes "get_credentials env w = (Inr creds, w1)"
      and "cache_lookup w1 = (None, w2)"
      and "try_block env creds w2 = (Raised (HttpError msg), evs, w3)"
  shows "get_today_events env w
           = (Return (json_dumps evs), print_out (Line (''An error occurred: '' @ msg)) w3)
         \<and> evs = [] \<and> json_dumps evs = ''[]''"
  using assms try_block_http [of env creds w2 msg evs w3]
  by (simp add: get_today_events_def fetch_events_def json_dumps_empty)

theorem http_error_caught_witness:
  "fst (get_today_events
          (sample_env (Inr (Some ''America/Los_Angeles'')) (Inl (HttpError ''<HttpError 500>'')))
          (sample_world None 1685304000))
     = Return ''[]''
   \<and> stdout (snd (get_today_events
          (sample_env (Inr (Some ''America/Los_Angeles'')) (Inl (HttpError ''<HttpError 500>'')))
          (sample_world None 1685304000)))
     = [Line ''Getting today's events'', Line ''An error occurred: <HttpError 500>'']"
proof -
  let ?E = "sample_env (Inr (Some ''America/Los_Angeles'')) (Inl (HttpError ''<HttpError 500>''))"
  let ?W = "sample_world None 1685304000"
  let ?T = "try_block ?E sample_creds ?W"
  have c: "get_credentials ?E ?W = (Inr sample_creds, ?W)"
    by (rule sample_credentials)
  have l: "cache_lookup ?W = (None, ?W)"
    by (simp add: cache_lookup_def sample_world_def)
  have "fst ?T = Raised (HttpError ''<HttpError 500>'')"
    by code_simp
  then have t: "?T = (Raised (HttpError ''<HttpError 500>''), fst (snd ?T), snd (snd ?T))"
    by (simp add: prod_eq_iff)
  have out: "stdout (snd (snd ?T)) = [Line ''Getting today's events'']"
    by code_simp
  from http_error_caught [OF c l t] out show ?thesis
    by (simp add: print_out_def json_dumps_empty)
qed

text \<open>
  C10. On a call that reaches the fetch: if the \<open>try\<close> block ends in any way other than
  by running to its end (an exception, a \<open>HttpError\<close> among them, or the early \<open>return\<close>),
  the cache file after the call is the one before it. If the block runs to its end, the
  listing succeeded, every event of it was normalized, and the record written holds
  exactly that complete list, which is also the list returned.
\<close>

theorem cache_written_only_on_success:
  assumes creds: "get_credentials env w = (Inr creds, w1)"
      and miss: "cache_lookup w1 = (None, w2)"
      and block: "try_block env creds w2 = (b, evs, w3)"
  shows "(b \<noteq> Completed \<longrightarrow> cache_file (snd (get_today_events env w)) = cache_file w)
       \<and> (b = Completed \<longrightarrow>
            (\<exists>events t. fst (request_events env creds w2) = Inr events \<and> events \<noteq> []
               \<and> normalize_events (localtime_gmtoff env) events [] = (None, evs)
               \<and> fst (get_today_events env w) = Return (json_dumps evs)
               \<and> cache_file (snd (get_today_events env w))
                   = Some \<lparr>timestamp = t, event_list = evs\<rparr>))"
proof -
  have run: "get_today_events env w = fetch_events env creds w2"
    using creds miss by (simp add: get_today_events_def)
  have c1: "cache_file w1 = cache_file w"
    using get_credentials_frame [of env w] creds by simp
  have c2: "cache_file w2 = cache_file w1"
    using cache_lookup_cache [of w1] miss by simp
  have after: "cache_file (snd (get_today_events env w)) = cache_file w3"
    using run fetch_events_cache(1) [OF block] by simp
  show ?thesis
  proof (intro conjI impI)
    assume "b \<noteq> Completed"
    with try_block_cache(1) [OF block] after c1 c2
    show "cache_file (snd (get_today_events env w)) = cache_file w" by simp
  next
    assume compl: "b = Completed"
    from try_block_cache(2) [OF block compl] obtain events t where
      "fst (request_events env creds w2) = Inr events" "events \<noteq> []"
      "normalize_events (localtime_gmtoff env) events [] = (None, evs)"
      "cache_file w3 = Some \<lparr>timestamp = t, event_list = evs\<rparr>"
      by blast
    moreover have "fst (get_today_events env w) = Return (json_dumps evs)"
      using run fetch_events_cache(2) [OF block compl] by simp
    ultimately show "\<exists>events t. fst (request_events env creds w2) = Inr events \<and> events \<noteq> []
               \<and> normalize_events (localtime_gmtoff env) events [] = (None, evs)
               \<and> fst (get_today_events env w) = Return (json_dumps evs)
               \<and> cache_file (snd (get_today_events env w))
                   = Some \<lparr>timestamp = t, event_list = evs\<rparr>"
      using after by auto
  qed
qed

theorem cache_written_only_on_success_witness:
  "cache_file (snd (get_today_events
      (sample_env (Inr (Some ''America/Los_Angeles'')) (Inl (HttpError ''<HttpError 500>'')))
      (sample_world (Some \<lparr>timestamp = 1685300000, event_list = [(''09:00 AM'', ''05:00 PM'', ''Old'')]\<rparr>)
         1685304000)))
     = Some \<lparr>timestamp = 1685300000, event_list = [(''09:00 AM'', ''05:00 PM'', ''Old'')]\<rparr>
   \<and> (\<exists>t. cache_file (snd (get_today_events
      (sample_env (Inr (Some ''America/Los_Angeles''))
         (Inr (Some [timed_event ''2023-05-28T09:00:00-07:00'' ''2023-05-28T17:00:00-07:00''
                       (Some ''Test'')])))
      (sample_world (Some \<lparr>timestamp = 1685300000, event_list = [(''09:00 AM'', ''05:00 PM'', ''Old'')]\<rparr>)
         1685304000)))
     = Some \<lparr>timestamp = t, event_list = [(''09:00 AM'', ''05:00 PM'', ''Test'')]\<rparr>)"
proof -
  let ?old = "\<lparr>timestamp = 1685300000, event_list = [(''09:00 AM'', ''05:00 PM'', ''Old'')]\<rparr>"
  let ?W = "sample_world (Some ?old) 1685304000"
  let ?W2 = "?W\<lparr>ticks := Suc (ticks ?W)\<rparr>"
  let ?E1 = "sample_env (Inr (Some ''America/Los_Angeles'')) (Inl (HttpError ''<HttpError 500>''))"
  let ?E2 = "sample_env (Inr (Some ''America/Los_Angeles''))
         (Inr (Some [timed_event ''2023-05-28T09:00:00-07:00'' ''2023-05-28T17:00:00-07:00''
                       (Some ''Test'')]))"
  let ?T1 = "try_block ?E1 sample_creds ?W2"
  let ?T2 = "try_block ?E2 sample_creds ?W2"
  have c: "get_credentials E ?W = (Inr sample_creds, ?W)" if "E = ?E1 \<or> E = ?E2" for E
    using that sample_credentials by blast
  have l: "cache_lookup ?W = (None, ?W2)"
    by (rule cache_lookup_expired [where cd = ?old]) (simp_all add: sample_world_def)
  have t1: "?T1 = (fst ?T1, fst (snd ?T1), snd (snd ?T1))"
    by simp
  have b1: "fst ?T1 \<noteq> Completed"
    by code_simp
  have t2: "?T2 = (fst ?T2, fst (snd ?T2), snd (snd ?T2))"
    by simp
  have b2: "fst ?T2 = Completed"
    by code_simp
  have e2: "fst (snd ?T2) = [(''09:00 AM'', ''05:00 PM'', ''Test'')]"
    by code_simp
  from cache_written_only_on_success [OF c l t1] b1
  have "cache_file (snd (get_today_events ?E1 ?W)) = cache_file ?W"
    by blast
  moreover from cache_written_only_on_success [OF c l t2] b2 e2
  have "\<exists>t. cache_file (snd (get_today_events ?E2 ?W))
               = Some \<lparr>timestamp = t, event_list = [(''09:00 AM'', ''05:00 PM'', ''Test'')]\<rparr>"
    by auto
  ultimately show ?thesis
    by (simp add: sample_world_def)
qed

section \<open>The listing request\<close>




section \<open>Normalization of the returned events\<close>

lemma rx_char_rest: "(m, r) \<in> set (rx_char P s) \<Longrightarrow> set r \<subseteq> set s"
  by (auto simp: rx_char_def split: list.splits if_splits)

lemma rx_seq_rest:
  assumes p: "\<And>s m r. (m, r) \<in> set (p s) \<Longrightarrow> set r \<subseteq> set s"
      and q: "\<And>s m r. (m, r) \<in> set (q s) \<Longrightarrow> set r \<subseteq> set s"
      and "(m, r) \<in> set (rx_seq p q s)"
  shows "set r \<subseteq> set s"
proof -
  from assms(3) obtain a r1 b where "(a, r1) \<in> set (p s)" "(b, r) \<in> set (q r1)"
    by (auto simp: rx_seq_def set_list_bind)
  with p [of a r1 s] q [of b r r1] show ?thesis by blast
qed

lemma rx_alt_rest:
  assumes p: "\<And>s m r. (m, r) \<in> set (p s) \<Longrightarrow> set r \<subseteq> set s"
      and q: "\<And>s m r. (m, r) \<in> set (q s) \<Longrightarrow> set r \<subseteq> set s"
      and "(m, r) \<in> set (rx_alt p q s)"
  shows "set r \<subseteq> set s"
proof -
  from assms(3) have "(m, r) \<in> set (p s) \<or> (m, r) \<in> set (q s)"
    by (simp add: rx_alt_def)
  with p [of m r s] q [of m r s] show ?thesis by blast
qed

lemma rx_digit_rest: "(m, r) \<in> set (rx_digit s) \<Longrightarrow> set r \<subseteq> set s"
  unfolding rx_digit_def by (rule rx_char_rest)

lemma rx_range_rest: "(m, r) \<in> set (rx_range lo hi s) \<Longrightarrow> set r \<subseteq> set s"
  unfolding rx_range_def by (rule rx_char_rest)

lemma rx_lit_rest: "(m, r) \<in> set (rx_lit c s) \<Longrightarrow> set r \<subseteq> set s"
  unfolding rx_lit_def by (rule rx_char_rest)

lemma rx_Y_rest: "(m, r) \<in> set (rx_Y s) \<Longrightarrow> set r \<subseteq> set s"
  unfolding rx_Y_def
  by (erule rx_seq_rest [rotated 2] | erule rx_digit_rest)+

lemma rx_m_rest: "(m, r) \<in> set (rx_m s) \<Longrightarrow> set r \<subseteq> set s"
  unfolding rx_m_def
  by (erule rx_seq_rest [rotated 2] rx_alt_rest [rotated 2] | erule rx_lit_rest rx_range_rest)+

lemma rx_d_rest: "(m, r) \<in> set (rx_d s) \<Longrightarrow> set r \<subseteq> set s"
  unfolding rx_d_def
  by (erule rx_seq_rest [rotated 2] rx_alt_rest [rotated 2]
      | erule rx_lit_rest rx_range_rest rx_digit_rest)+

text \<open>A text without the letter \<open>T\<close> never matches the format; a date such as
  \<open>2023-05-28\<close> is one.\<close>

lemma strptime_needs_T:
  assumes "CHR ''T'' \<notin> set s" and "CHR ''t'' \<notin> set s"
  shows "strptime (Some s) = Inl ValueError"
proof -
  have "strptime_groups s = []"
  proof (rule ccontr)
    assume "strptime_groups s \<noteq> []"
    then obtain x where "x \<in> set (strptime_groups s)"
      using hd_in_set by blast
    then obtain Y s1 u1 s2 m s3 u2 s4 d s5 u3 s6 where
      ms: "(Y, s1) \<in> set (rx_Y s)" "(u1, s2) \<in> set (rx_lit CHR ''-'' s1)"
      "(m, s3) \<in> set (rx_m s2)" "(u2, s4) \<in> set (rx_lit CHR ''-'' s3)"
      "(d, s5) \<in> set (rx_d s4)"
      and t: "(u3, s6) \<in> set (rx_char (\<lambda>c. c = CHR ''T'' \<or> c = CHR ''t'') s5)"
      unfolding strptime_groups_def by (auto simp: set_list_bind)
    from ms have "set s5 \<subseteq> set s"
      using rx_Y_rest [of Y s1 s] rx_lit_rest [of u1 s2 "CHR ''-''" s1] rx_m_rest [of m s3 s2]
            rx_lit_rest [of u2 s4 "CHR ''-''" s3] rx_d_rest [of d s5 s4]
      by blast
    moreover from t have "CHR ''T'' \<in> set s5 \<or> CHR ''t'' \<in> set s5"
      by (auto simp: rx_char_def split: list.splits if_splits)
    ultimately have "CHR ''T'' \<in> set s \<or> CHR ''t'' \<in> set s"
      by blast
    with assms show False by simp
  qed
  then show ?thesis
    by (simp add: strptime_def)
qed

lemma all_day_event_fails:
  assumes "et_dateTime (ev_start ev) = None" and "et_date (ev_start ev) = Some s"
      and "CHR ''T'' \<notin> set s" and "CHR ''t'' \<notin> set s"
  shows "normalize_event g ev = Inl ValueError"
  using assms strptime_needs_T [of s]
  by (simp add: normalize_event_def display_time_def dateTime_or_date_def)

text \<open>What a displayed time means: the text parses to some instant, and the string is
  the hour and minute of the host's wall clock at that instant.\<close>

lemma display_time_instant:
  assumes "display_time g s = Inr str"
  shows "\<exists>d loc. strptime s = Inr d \<and> str = strftime_I_M_p loc
           \<and> posix_us loc = posix_us d
           \<and> dt_utcoffset loc = g (posix_us d div US_PER_SECOND) * US_PER_SECOND"
proof -
  from assms obtain d loc where d: "strptime s = Inr d" and loc: "astimezone g d = Inr loc"
    and str: "str = strftime_I_M_p loc"
    by (auto simp: display_time_def split: sum.splits)
  from astimezone_Inr(4,5) [OF loc] d str show ?thesis
    by (auto simp: posix_us_def algebra_simps)
qed

lemma normalize_events_append:
  "normalize_events g (pre @ rest) acc =
     (case normalize_events g pre acc of
        (Some e, out) \<Rightarrow> (Some e, out)
      | (None, out) \<Rightarrow> normalize_events g rest out)"
  by (induction pre arbitrary: acc) (auto split: sum.splits)

lemma normalize_event_untitled:
  assumes "ev_summary ev = None"
  shows "\<exists>e. normalize_event g ev = Inl e"
    and "display_time g (dateTime_or_date (ev_start ev)) = Inr s
         \<Longrightarrow> display_time g (dateTime_or_date (ev_end ev)) = Inr s'
         \<Longrightarrow> normalize_event g ev = Inl (KeyError ''summary'')"
  using assms by (auto simp: normalize_event_def split: sum.splits)

lemma normalize_event_summary:
  "normalize_event g ev = Inr (a, b, t) \<Longrightarrow> ev_summary ev = Some t"
  by (auto simp: normalize_event_def split: sum.splits option.splits)

lemma fetch_events_list_raises:
  assumes "request_events env creds w = (Inr events, w')"
      and "normalize_events (localtime_gmtoff env) events [] = (Some e, out)"
  shows "fetch_events env creds w = (Raise e, w')"
proof -
  from assms(2) have "events \<noteq> []" by auto
  moreover from normalize_events_error [OF assms(2)] have "\<And>msg. e \<noteq> HttpError msg"
    by auto
  ultimately show ?thesis
    using assms by (auto simp: fetch_events_def try_block_def split: exn.splits)
qed

text \<open>An all-day event whose predecessors normalize ends the call with \<open>ValueError\<close>,
  whatever the host and the clock.\<close>

lemma all_day_events_raise:
  assumes creds: "get_credentials env w = (Inr creds, w1)"
      and miss: "cache_lookup w1 = (None, w2)"
      and listing: "request_events env creds w2 = (Inr (pre @ ev # post), w3)"
      and pre: "normalize_events (localtime_gmtoff env) pre [] = (None, acc)"
      and all_day: "et_dateTime (ev_start ev) = None" "et_date (ev_start ev) = Some s"
                   "CHR ''T'' \<notin> set s" "CHR ''t'' \<notin> set s"
  shows "get_today_events env w = (Raise ValueError, w3)"
proof -
  have "normalize_events (localtime_gmtoff env) (pre @ ev # post) [] = (Some ValueError, acc)"
    using pre all_day_event_fails [OF all_day] by (simp add: normalize_events_append)
  from fetch_events_list_raises [OF listing this] creds miss show ?thesis
    by (simp add: get_today_events_def)
qed

text \<open>
  C2. The timed event of the specification's example is displayed as \<open>09:00 AM\<close> on a
  host in America/Los_Angeles. For an all-day event the fallback to the \<open>date\<close> entry
  takes place, but the date \<open>2023-05-28\<close> does not match the format
  \<open>%Y-%m-%dT%H:%M:%S%z\<close>: \<open>strptime\<close> raises \<open>ValueError\<close>, which the handler for
  \<open>HttpError\<close> does not catch, and the call raises instead of returning a list.
\<close>

theorem all_day_event_raises:
  "display_time los_angeles_2023 (Some ''2023-05-28T09:00:00-07:00'') = Inr ''09:00 AM''
   \<and> dateTime_or_date (ev_start (all_day_event ''2023-05-28'' ''2023-05-29'' (Some ''Holiday'')))
       = Some ''2023-05-28''
   \<and> strptime (Some ''2023-05-28'') = Inl ValueError
   \<and> fst (get_today_events
            (sample_env (Inr (Some ''America/Los_Angeles''))
               (Inr (Some [all_day_event ''2023-05-28'' ''2023-05-29'' (Some ''Holiday'')])))
            (sample_world None 1685304000))
       = Raise ValueError"
  by code_simp

text \<open>
  C3. When the listing has no items (an empty \<open>items\<close> entry, or none), the call prints
  "No upcoming events found." and ends at the bare \<open>return\<close> of line 112: the caller gets
  \<open>None\<close>, not the serialized empty list \<open>[]\<close>. It does not raise.
\<close>

theorem no_events_returns_None:
  "fst (get_today_events (sample_env (Inr (Some ''America/Los_Angeles'')) (Inr (Some [])))
          (sample_world None 1685304000))
     = ReturnNone
   \<and> fst (get_today_events (sample_env (Inr (Some ''America/Los_Angeles'')) (Inr None))
          (sample_world None 1685304000))
     = ReturnNone
   \<and> stdout (snd (get_today_events (sample_env (Inr (Some ''America/Los_Angeles'')) (Inr (Some [])))
          (sample_world None 1685304000)))
     = [Line ''Getting today's events'', Line ''No upcoming events found.'']
   \<and> Return (json_dumps []) = Return ''[]''"
  by code_simp

text \<open>
  C5, as the code has it. When the listing holds an event without a \<open>summary\<close> entry, no
  triple is produced for it and nothing is returned: the call raises, and the exception is
  \<open>KeyError('summary')\<close> whenever the events before it and its own start and end
  normalize (otherwise it is the \<open>TypeError\<close>, \<open>ValueError\<close> or \<open>OverflowError\<close> that
  came first). The world is left as it was after the listing request: the list is not
  printed and the cache file is not written. No default title is substituted.
\<close>

theorem untitled_event_raises:
  assumes creds: "get_credentials env w = (Inr creds, w1)"
      and miss: "cache_lookup w1 = (None, w2)"
      and listing: "request_events env creds w2 = (Inr (pre @ event # post), w3)"
      and untitled: "ev_summary event = None"
  shows "(\<exists>e. get_today_events env w = (Raise e, w3)
            \<and> (e = KeyError ''summary'' \<or> e = TypeError \<or> e = ValueError \<or> e = OverflowError))
       \<and> ((\<exists>acc. normalize_events (localtime_gmtoff env) pre [] = (None, acc))
            \<and> (\<exists>s. display_time (localtime_gmtoff env) (dateTime_or_date (ev_start event)) = Inr s)
            \<and> (\<exists>s. display_time (localtime_gmtoff env) (dateTime_or_date (ev_end event)) = Inr s)
           \<longrightarrow> get_today_events env w = (Raise (KeyError ''summary''), w3))
       \<and> cache_file w3 = cache_file w"
proof -
  let ?g = "localtime_gmtoff env"
  have run: "get_today_events env w = fetch_events env creds w2"
    using creds miss by (simp add: get_today_events_def)
  obtain e0 where e0: "normalize_event ?g event = Inl e0"
    using normalize_event_untitled(1) [OF untitled] by blast
  obtain r out where pre: "normalize_events ?g pre [] = (r, out)"
    by (cases "normalize_events ?g pre []")
  have "\<exists>e out'. normalize_events ?g (pre @ event # post) [] = (Some e, out')"
    using pre e0 by (cases r) (simp_all add: normalize_events_append)
  then obtain e out' where all: "normalize_events ?g (pre @ event # post) [] = (Some e, out')"
    by blast
  from fetch_events_list_raises [OF listing all] run
  have 1: "get_today_events env w = (Raise e, w3)" by simp
  from normalize_events_error [OF all]
  have 2: "e = KeyError ''summary'' \<or> e = TypeError \<or> e = ValueError \<or> e = OverflowError"
    by blast
  have 3: "get_today_events env w = (Raise (KeyError ''summary''), w3)"
    if "normalize_events ?g pre [] = (None, acc)"
       "display_time ?g (dateTime_or_date (ev_start event)) = Inr s"
       "display_time ?g (dateTime_or_date (ev_end event)) = Inr s'" for acc s s'
  proof -
    from normalize_event_untitled(2) [OF untitled that(2) that(3)]
    have "normalize_events ?g (pre @ event # post) [] = (Some (KeyError ''summary''), acc)"
      using that(1) by (simp add: normalize_events_append)
    from fetch_events_list_raises [OF listing this] run show ?thesis by simp
  qed
  have 4: "cache_file w3 = cache_file w"
    using request_events_cache [of env creds w2] listing cache_lookup_cache [of w1] miss
          get_credentials_frame [of env w] creds
    by simp
  from 1 2 3 4 show ?thesis
    by blast
qed

text \<open>
  C5 as the specification words it (the event is passed through with its summary left
  out of the triple) fails on a single timed event without a summary: the call raises
  \<open>KeyError('summary')\<close>.
\<close>

theorem untitled_event_counterexample:
  "fst (get_today_events
          (sample_env (Inr (Some ''America/Los_Angeles''))
             (Inr (Some [timed_event ''2023-05-28T09:00:00-07:00'' ''2023-05-28T17:00:00-07:00''
                           None])))
          (sample_world None 1685304000))
     = Raise (KeyError ''summary'')"
  by code_simp

theorem untitled_event_raises_witness:
  "fst (get_today_events
          (sample_env (Inr (Some ''America/Los_Angeles''))
             (Inr (Some [timed_event ''2023-05-28T09:00:00-07:00'' ''2023-05-28T10:00:00-07:00''
                           (Some ''Standup''),
                         timed_event ''2023-05-28T12:00:00-07:00'' ''2023-05-28T13:00:00-07:00''
                           None])))
          (sample_world None 1685304000))
     = Raise (KeyError ''summary'')
   \<and> cache_file (snd (get_today_events
          (sample_env (Inr (Some ''America/Los_Angeles''))
             (Inr (Some [timed_event ''2023-05-28T09:00:00-07:00'' ''2023-05-28T10:00:00-07:00''
                           (Some ''Standup''),
                         timed_event ''2023-05-28T12:00:00-07:00'' ''2023-05-28T13:00:00-07:00''
                           None])))
          (sample_world None 1685304000)))
     = None"
proof -
  let ?e1 = "timed_event ''2023-05-28T09:00:00-07:00'' ''2023-05-28T10:00:00-07:00'' (Some ''Standup'')"
  let ?e2 = "timed_event ''2023-05-28T12:00:00-07:00'' ''2023-05-28T13:00:00-07:00'' None"
  let ?E = "sample_env (Inr (Some ''America/Los_Angeles'')) (Inr (Some [?e1, ?e2]))"
  let ?W = "sample_world None 1685304000"
  let ?R = "request_events ?E sample_creds ?W"
  have c: "get_credentials ?E ?W = (Inr sample_creds, ?W)"
    by (rule sample_credentials)
  have l: "cache_lookup ?W = (None, ?W)"
    by (simp add: cache_lookup_def sample_world_def)
  have "fst ?R = Inr ([?e1] @ ?e2 # [])"
    by code_simp
  then have r: "?R = (Inr ([?e1] @ ?e2 # []), snd ?R)"
    by (simp add: prod_eq_iff)
  have u: "ev_summary ?e2 = None"
    by (simp add: timed_event_def)
  have g: "localtime_gmtoff ?E = los_angeles_2023"
    by (simp add: sample_env_def)
  have p: "normalize_events los_angeles_2023 [?e1] [] = (None, [(''09:00 AM'', ''10:00 AM'', ''Standup'')])"
    by code_simp
  have s: "display_time los_angeles_2023 (dateTime_or_date (ev_start ?e2)) = Inr ''12:00 PM''"
    by code_simp
  have e: "display_time los_angeles_2023 (dateTime_or_date (ev_end ?e2)) = Inr ''01:00 PM''"
    by code_simp
  from untitled_event_raises [OF c l r u] p s e
  have "get_today_events ?E ?W = (Raise (KeyError ''summary''), snd ?R)"
       "cache_file (snd ?R) = cache_file ?W"
    unfolding g by blast+
  then show ?thesis
    by (simp add: sample_world_def)
qed

section \<open>Errors during submission\<close>

lemma add_event_submits_to_dict:
  assumes "get_credentials env w = (Inr creds, w1)" and "build env creds = Inr ()"
  shows "remote_log (snd (add_event env ev w))
           = remote_log w1 @ [Build, EventsInsert ''primary'' (to_dict ev)]"
  using assms by (simp add: add_event_def call_def print_out_def Let_def split: sum.splits)

lemma add_event_success:
  assumes "get_credentials env w = (Inr creds, w1)" and "build env creds = Inr ()"
      and "events_insert env (to_dict ev) = Inr (Some link)"
  shows "fst (add_event env ev w) = ReturnNone
       \<and> stdout (snd (add_event env ev w)) = stdout w1 @ [Line (''Event created: '' @ link)]"
  using assms by (simp add: add_event_def call_def print_out_def Let_def)

text \<open>
  C8. With credentials at hand, an exception raised while \<open>add_event\<close> builds the client
  or submits the event (a service error or any other, such as a transport error) leaves
  \<open>add_event\<close> as it is: the call raises that exception, nothing is printed, and the record
  of requests shows one construction of the client and at most one insertion, so nothing
  is tried again.
\<close>

theorem add_event_error_propagates:
  assumes "get_credentials env w = (Inr creds, w1)"
  shows "(build env creds = Inl e \<longrightarrow> add_event env ev w = (Raise e, call Build w1))
       \<and> (build env creds = Inr () \<and> events_insert env (to_dict ev) = Inl e \<longrightarrow>
            add_event env ev w
              = (Raise e, w1\<lparr>remote_log := remote_log w1
                                @ [Build, EventsInsert ''primary'' (to_dict ev)]\<rparr>))"
  using assms by (simp add: add_event_def call_def Let_def)

theorem add_event_error_propagates_witness:
  "add_event (sample_env (Inr None) (Inr None))
      (Event_init ''Test'' [] [] ''2023-05-28T09:00:00-07:00'' ''2023-05-28T17:00:00-07:00''
         (Some [''a@example.com'']) (Some ''America/Los_Angeles''))
      (sample_world None 1685304000)
     = (Raise (HttpError ''<HttpError 403 Forbidden>''),
        (sample_world None 1685304000)
          \<lparr>remote_log := [Build, EventsInsert ''primary''
             (to_dict (Event_init ''Test'' [] [] ''2023-05-28T09:00:00-07:00''
                ''2023-05-28T17:00:00-07:00'' (Some [''a@example.com''])
                (Some ''America/Los_Angeles'')))]\<rparr>)
   \<and> add_event ((sample_env (Inr None) (Inr None))
                   \<lparr>build := \<lambda>_. Inl (OtherError ''ServerNotFoundError'')\<rparr>)
      (Event_init ''Test'' [] [] ''2023-05-28T09:00:00-07:00'' ''2023-05-28T17:00:00-07:00''
         (Some [''a@example.com'']) (Some ''America/Los_Angeles''))
      (sample_world None 1685304000)
     = (Raise (OtherError ''ServerNotFoundError''),
        (sample_world None 1685304000)\<lparr>remote_log := [Build]\<rparr>)"
proof -
  let ?E = "sample_env (Inr None) (Inr None)"
  let ?E' = "?E\<lparr>build := \<lambda>_. Inl (OtherError ''ServerNotFoundError'')\<rparr>"
  let ?W = "sample_world None 1685304000"
  let ?ev = "Event_init ''Test'' [] [] ''2023-05-28T09:00:00-07:00'' ''2023-05-28T17:00:00-07:00''
         (Some [''a@example.com'']) (Some ''America/Los_Angeles'')"
  have c: "get_credentials ?E ?W = (Inr sample_creds, ?W)"
    by (rule sample_credentials)
  have c': "get_credentials ?E' ?W = (Inr sample_creds, ?W)"
    by (simp add: get_credentials_def sample_world_def sample_creds_def)
  have 1: "build ?E sample_creds = Inr () \<and> events_insert ?E (to_dict ?ev)
             = Inl (HttpError ''<HttpError 403 Forbidden>'')"
    by (simp add: sample_env_def)
  have 2: "build ?E' sample_creds = Inl (OtherError ''ServerNotFoundError'')"
    by (simp add: sample_env_def)
  from add_event_error_propagates [OF c, of "HttpError ''<HttpError 403 Forbidden>''" ?ev] 1
       add_event_error_propagates [OF c', of "OtherError ''ServerNotFoundError''" ?ev] 2
  show ?thesis
    by (simp add: call_def sample_world_def)
qed

section \<open>Wire form of an event\<close>

text \<open>
  C7. For every \<open>Event\<close>, the dictionary built by \<open>to_dict\<close> nests \<open>start\<close> and \<open>end\<close>
  into objects with the keys \<open>dateTime\<close> and \<open>timeZone\<close> (the event's timestamp and its
  time zone identifier), and turns each attendee address into an object with the single
  key \<open>email\<close>, in order. For the event of the spec's example, the attendees
  \<open>["a@example.com"]\<close> become \<open>[{"email": "a@example.com"}]\<close> and both nested objects
  carry the supplied time zone string.
\<close>

theorem to_dict_wire_shape:
  "dict_get (to_dict e) ''start''
     = Some (PDict [(''dateTime'', PStr (start e)), (''timeZone'', opt_str (timeZone e))])
   \<and> dict_get (to_dict e) ''end''
     = Some (PDict [(''dateTime'', PStr (end' e)), (''timeZone'', opt_str (timeZone e))])
   \<and> dict_get (to_dict e) ''attendees''
     = Some (PList (map (\<lambda>a. PDict [(''email'', PStr a)]) (attendees e)))
   \<and> to_dict (Event_init ''Test'' l d ''2023-05-28T09:00:00-07:00'' ''2023-05-28T17:00:00-07:00''
                 (Some [''a@example.com'']) (Some ''America/Los_Angeles''))
     = PDict
        [(''summary'', PStr ''Test''), (''location'', PStr l), (''description'', PStr d),
         (''start'', PDict [(''dateTime'', PStr ''2023-05-28T09:00:00-07:00''),
                            (''timeZone'', PStr ''America/Los_Angeles'')]),
         (''end'', PDict [(''dateTime'', PStr ''2023-05-28T17:00:00-07:00''),
                          (''timeZone'', PStr ''America/Los_Angeles'')]),
         (''attendees'', PList [PDict [(''email'', PStr ''a@example.com'')]])]"
  by (simp add: to_dict_def dict_get_def Event_init_def opt_str_def)

end
